theory Spec2Isabelle
  imports Main "HOL-Library.Sublist"
begin

section \<open>Nyra: the command handlers of nyra\_bot.py\<close>

text \<open>
  The program registers three command handlers with a chat client and starts it.
  Python strings are modelled as \<^typ>\<open>string\<close>; a character outside ASCII is written
  as the bytes of its UTF-8 encoding (the crystal ball U+1F52E is F0 9F 94 AE), so
  equality and containment of strings are those of the source, while \<^const>\<open>length\<close>
  would count bytes. The hook \<open>on_ready\<close> only prints a line and is left out.
\<close>

subsection \<open>Values of the client library that the handlers build and read\<close>

text \<open>
  A \<open>discord.Member\<close> as far as the handlers read it: the attribute \<open>mention\<close>.
  The object defines neither \<open>__bool__\<close> nor \<open>__len__\<close>, so it is always truthy.
\<close>

record member =
  display_name :: string
  mention :: string

text \<open>One entry appended by \<open>Embed.add_field(name=..., value=..., inline=...)\<close>.\<close>

record embed_field =
  field_name :: string
  field_value :: string
  field_inline :: bool

text \<open>
  A \<open>discord.Embed\<close>: the constructor's keyword arguments that were not given
  stay unset, the footer is unset until \<open>set_footer\<close>, the fields start empty.
\<close>

record embed =
  title :: "string option"
  description :: "string option"
  color :: "nat option"
  footer :: "string option"
  embed_fields :: "embed_field list"

definition Embed :: "string option \<Rightarrow> string option \<Rightarrow> nat option \<Rightarrow> embed" where
  "Embed t d c = \<lparr>title = t, description = d, color = c, footer = None, embed_fields = []\<rparr>"

definition set_footer :: "string \<Rightarrow> embed \<Rightarrow> embed" where
  "set_footer text e = e\<lparr>footer := Some text\<rparr>"

definition add_field :: "string \<Rightarrow> string \<Rightarrow> bool \<Rightarrow> embed \<Rightarrow> embed" where
  "add_field n v i e =
     e\<lparr>embed_fields := embed_fields e @ [\<lparr>field_name = n, field_value = v, field_inline = i\<rparr>]\<rparr>"

text \<open>What \<open>ctx.send\<close> is given: a text (\<open>send(content)\<close>) or an embed (\<open>send(embed=...)\<close>).\<close>

datatype message = Content string | EmbedMsg embed

text \<open>
  The command context \<open>ctx\<close>: the invoking user, and the messages sent through it so
  far, oldest first. The second field is the handlers' only effect.
\<close>

record command_ctx =
  author :: member
  sent :: "message list"

datatype error =
    IndexError
  | CommandRegistrationError string
  | MissingCredential

text \<open>
  \<open>await ctx.send(...)\<close> hands one message to the transport. Delivery is the
  library's; the model records that the handler reached the call, and with what.
\<close>

definition send :: "message \<Rightarrow> command_ctx \<Rightarrow> error + command_ctx" where
  "send m c = Inr (c\<lparr>sent := sent c @ [m]\<rparr>)"

text \<open>
  \<open>random.choice(seq)\<close> raises IndexError on an empty sequence and otherwise returns
  \<open>seq[i]\<close> for the index \<open>i\<close> that the generator draws below \<open>len(seq)\<close>. The draw is
  the parameter \<open>i\<close>; indexing past the end raises, as a Python list does.
\<close>

definition choice :: "nat \<Rightarrow> 'a list \<Rightarrow> error + 'a" where
  "choice i seq =
     (if seq = [] then Inl IndexError
      else if i < length seq then Inr (seq ! i)
      else Inl IndexError)"

text \<open>
  A parameter with a default: the call either omits the argument or passes a value.
\<close>

datatype 'a arg = Omitted | Passed 'a

definition with_default :: "'a \<Rightarrow> 'a arg \<Rightarrow> 'a" where
  "with_default d a = (case a of Omitted \<Rightarrow> d | Passed v \<Rightarrow> v)"

text \<open>
  Python's \<open>x or y\<close> where \<open>x\<close> is \<open>None\<close> or a member: \<open>None\<close> is falsy, a member
  is truthy.
\<close>

definition py_or :: "member option \<Rightarrow> member \<Rightarrow> member" where
  "py_or x y = (case x of None \<Rightarrow> y | Some m \<Rightarrow> m)"

subsection \<open>wisdom\<close>

text \<open>The literals of the source; the dash in the fourth line is U+2014.\<close>

definition crystal_ball :: string where
  "crystal_ball = [CHR 0xF0, CHR 0x9F, CHR 0x94, CHR 0xAE]"

definition crescent_moon :: string where
  "crescent_moon = [CHR 0xF0, CHR 0x9F, CHR 0x8C, CHR 0x99]"

definition scroll :: string where
  "scroll = [CHR 0xF0, CHR 0x9F, CHR 0x93, CHR 0x9C]"

definition lines :: "string list" where
  "lines =
     [''Even void can return something.'',
      ''All data is a spell waiting to be cast.'',
      ''Modules are fragments of the soul, split but eternal.'',
      ''Syntax isn'' @ [CHR 0x27] @ ''t written '' @ [CHR 0xE2, CHR 0x80, CHR 0x94]
        @ '' it'' @ [CHR 0x27] @ ''s conjured.'',
      ''The REPL is your cauldron; stir it wisely.'']"

definition wisdom :: "nat \<Rightarrow> command_ctx \<Rightarrow> error + command_ctx" where
  "wisdom i ctx =
     (case choice i lines of
        Inl e \<Rightarrow> Inl e
      | Inr line \<Rightarrow> send (Content (crystal_ball @ '' '' @ line)) ctx)"

subsection \<open>welcome (the name is a keyword here, hence the suffix; likewise help)\<close>

definition welcome_cmd :: "member option arg \<Rightarrow> command_ctx \<Rightarrow> error + command_ctx" where
  "welcome_cmd a ctx =
     (let member = with_default None a;
          member = py_or member (author ctx);
          embed = Embed
            (Some (crescent_moon @ '' A new star rises...''))
            (Some (''Welcome to **Lunaria**, '' @ mention member @ ''!'' @ [CHR 0x0A]
                   @ ''Let the code guide you through the void.''))
            (Some 0x9e91ff);
          embed = set_footer ''Nyra, Guardian of the Grimoire'' embed
      in send (EmbedMsg embed) ctx)"

subsection \<open>help\<close>

definition help_cmd :: "command_ctx \<Rightarrow> error + command_ctx" where
  "help_cmd ctx =
     (let embed = Embed
            (Some (scroll @ '' Nyra'' @ [CHR 0x27] @ ''s Grimoire of Commands''))
            None
            (Some 0xaab6ff);
          embed = add_field ''lunaria!wisdom''
            ''Receive a cryptic line of code-sorcery.'' False embed;
          embed = add_field ''lunaria!welcome [@user]''
            ''Manually invoke the welcome ritual.'' False embed;
          embed = set_footer ''More spells soon to be discovered...'' embed
      in send (EmbedMsg embed) ctx)"

text \<open>The five texts \<open>wisdom\<close> can send: the glyph, a space, and a line of the list.\<close>

definition wisdom_replies :: "message set" where
  "wisdom_replies = (\<lambda>line. Content (crystal_ball @ '' '' @ line)) ` set lines"

subsection \<open>The command router of the client library\<close>

text \<open>A sequence of steps stops at the first one that raises.\<close>

definition then_do :: "error + 'a \<Rightarrow> ('a \<Rightarrow> error + 'b) \<Rightarrow> error + 'b" where
  "then_do r f = (case r of Inl e \<Rightarrow> Inl e | Inr x \<Rightarrow> f x)"

text \<open>
  The callbacks a command name can stand for: the three functions of the module, and
  the client's own help command.
\<close>

datatype handler = Wisdom | Welcome | Help | DefaultHelp

text \<open>
  Modelled from the spec: the command table of the external client (the class
  \<open>commands.Bot\<close>), which is not part of the source. The spec has "a table mapping
  textual command names to handler functions", each command "registered once at process
  start; never mutated". The table is kept in registration order.
\<close>

record bot =
  command_prefix :: string
  all_commands :: "(string \<times> handler) list"

text \<open>
  Modelled from the spec: the constructor call \<open>commands.Bot(command_prefix=...,
  intents=..., help_command=...)\<close>. The client lists its own help command under the
  name \<open>help\<close> unless it is given \<open>help_command=None\<close>, as the source does. The
  intents play no part in any handler.
\<close>

definition Bot :: "string \<Rightarrow> handler option \<Rightarrow> bot" where
  "Bot pfx help_command =
     \<lparr>command_prefix = pfx,
      all_commands = (case help_command of None \<Rightarrow> [] | Some h \<Rightarrow> [(''help'', h)])\<rparr>"

text \<open>
  Modelled from the spec: the decorator \<open>@bot.command()\<close>, which registers the
  decorated function under its own name and refuses a name that is taken ("command names
  are unique strings").
\<close>

definition command :: "string \<Rightarrow> handler \<Rightarrow> bot \<Rightarrow> error + bot" where
  "command name h b =
     (if name \<in> set (map fst (all_commands b)) then Inl (CommandRegistrationError name)
      else Inr (b\<lparr>all_commands := all_commands b @ [(name, h)]\<rparr>))"

text \<open>
  The module's top level up to its last line: the client is built with the prefix
  \<open>lunaria!\<close> and no help command, then the three decorators run in source order.
\<close>

definition bot_setup :: "error + bot" where
  "bot_setup =
     then_do (then_do (command ''wisdom'' Wisdom (Bot ''lunaria!'' None))
                (command ''welcome'' Welcome))
       (command ''help'' Help)"

text \<open>
  Modelled from the spec: how the external client reads an inbound text, which is not
  part of the source. The text must start with the prefix; the command token is what
  follows, up to the first white space (ASCII white space here).
\<close>

definition is_space :: "char \<Rightarrow> bool" where
  "is_space c = (c \<in> set [CHR '' '', CHR 0x09, CHR 0x0A, CHR 0x0B, CHR 0x0C, CHR 0x0D])"

definition command_token :: "string \<Rightarrow> string \<Rightarrow> string option" where
  "command_token pfx content =
     (if take (length pfx) content = pfx
      then Some (takeWhile (\<lambda>c. \<not> is_space c) (drop (length pfx) content))
      else None)"

text \<open>
  Modelled from the spec: "look up a handler by exact name match". A text without the
  prefix, or whose token is not a key of the table, selects nothing.
\<close>

definition get_command :: "bot \<Rightarrow> string \<Rightarrow> handler option" where
  "get_command b content =
     (case command_token (command_prefix b) content of
        None \<Rightarrow> None
      | Some name \<Rightarrow> map_of (all_commands b) name)"

text \<open>
  An inbound event as the client hands it on: the text, its sender, the member the
  client resolved from the argument text (if the text names one), and the index the
  generator draws if the handler asks for one.
\<close>

record inbound =
  content :: string
  sender :: member
  target :: "member option"
  draw :: nat

text \<open>
  Calling the selected callback. \<open>welcome\<close> gets the resolved member, or nothing when
  the text names none, so that its default applies. What the client's own help command
  sends is the library's; the program never registers it.
\<close>

fun invoke :: "handler \<Rightarrow> inbound \<Rightarrow> command_ctx \<Rightarrow> error + command_ctx" where
  "invoke Wisdom ev ctx = wisdom (draw ev) ctx"
| "invoke Welcome ev ctx =
     welcome_cmd (case target ev of None \<Rightarrow> Omitted | Some m \<Rightarrow> Passed (Some m)) ctx"
| "invoke Help ev ctx = help_cmd ctx"
| "invoke DefaultHelp ev ctx = Inr ctx"

text \<open>
  The running process: the client with its table, and what has been handed to the
  transport so far.
\<close>

record process =
  client :: bot
  channel :: "message list"

text \<open>
  Modelled from the spec: one delivery. "If found, invoke it; if not found, no defined
  behavior (delegated to the external library's default handling)": here a text that
  selects nothing, or a handler that raises, leaves the process as it is.
\<close>

definition on_message :: "process \<Rightarrow> inbound \<Rightarrow> process" where
  "on_message p ev =
     (case get_command (client p) (content ev) of
        None \<Rightarrow> p
      | Some h \<Rightarrow>
          (case invoke h ev \<lparr>author = sender ev, sent = []\<rparr> of
             Inl e \<Rightarrow> p
           | Inr ctx \<Rightarrow> p\<lparr>channel := channel p @ sent ctx\<rparr>))"

text \<open>
  Modelled from the spec: \<open>bot.run\<close>, which is not part of the source. The client
  "authenticates with a credential supplied at startup", and a missing credential
  "causes the process to fail at startup with whatever diagnostic the external library
  emits". What the platform answers to a credential is outside the model: with one, the
  session starts.
\<close>

definition run :: "string option \<Rightarrow> bot \<Rightarrow> error + process" where
  "run token b =
     (case token of
        None \<Rightarrow> Inl MissingCredential
      | Some t \<Rightarrow> Inr \<lparr>client = b, channel = []\<rparr>)"

text \<open>The whole module: the setup, then \<open>bot.run()\<close> with no argument.\<close>

definition main :: "error + process" where
  "main = then_do bot_setup (run None)"

section \<open>What the handlers send\<close>

subsection \<open>Each handler, evaluated\<close>

lemma lines_length: "length lines = 5"
  by (simp add: lines_def)

lemma lines_distinct: "distinct lines"
  by (simp add: lines_def)

lemma wisdom_in_range:
  "i < length lines \<Longrightarrow>
     wisdom i ctx = Inr (ctx\<lparr>sent := sent ctx @ [Content (crystal_ball @ '' '' @ lines ! i)]\<rparr>)"
  by (simp add: wisdom_def choice_def send_def lines_def)

text \<open>A draw past the end of the list would raise: the bound on the draw is needed.\<close>

lemma wisdom_out_of_range: "length lines \<le> i \<Longrightarrow> wisdom i ctx = Inl IndexError"
  by (simp add: wisdom_def choice_def lines_def)

lemma reply_inj: "inj (\<lambda>line. Content (crystal_ball @ '' '' @ line))"
  by (simp add: inj_def)

lemma wisdom_replies_card: "card wisdom_replies = 5"
  unfolding wisdom_replies_def
  using reply_inj lines_distinct lines_length
  by (metis card_image distinct_card inj_on_subset subset_UNIV)

lemma welcome_sends:
  "welcome_cmd a ctx =
     Inr (ctx\<lparr>sent := sent ctx @
       [EmbedMsg \<lparr>title = Some (crescent_moon @ '' A new star rises...''),
          description = Some (''Welcome to **Lunaria**, ''
            @ mention (py_or (with_default None a) (author ctx)) @ ''!'' @ [CHR 0x0A]
            @ ''Let the code guide you through the void.''),
          color = Some 0x9e91ff,
          footer = Some ''Nyra, Guardian of the Grimoire'',
          embed_fields = []\<rparr>]\<rparr>)"
  by (simp add: welcome_cmd_def Let_def Embed_def set_footer_def send_def)

lemma help_sends:
  "help_cmd ctx =
     Inr (ctx\<lparr>sent := sent ctx @
       [EmbedMsg \<lparr>title = Some (scroll @ '' Nyra'' @ [CHR 0x27] @ ''s Grimoire of Commands''),
          description = None,
          color = Some 0xaab6ff,
          footer = Some ''More spells soon to be discovered...'',
          embed_fields =
            [\<lparr>field_name = ''lunaria!wisdom'',
              field_value = ''Receive a cryptic line of code-sorcery.'',
              field_inline = False\<rparr>,
             \<lparr>field_name = ''lunaria!welcome [@user]'',
              field_value = ''Manually invoke the welcome ritual.'',
              field_inline = False\<rparr>]\<rparr>]\<rparr>)"
  by (simp add: help_cmd_def Let_def Embed_def set_footer_def add_field_def send_def)

subsection \<open>The table after the module has loaded\<close>

lemma bot_setup_eq:
  "bot_setup = Inr \<lparr>command_prefix = ''lunaria!'',
     all_commands = [(''wisdom'', Wisdom), (''welcome'', Welcome), (''help'', Help)]\<rparr>"
  by (simp add: bot_setup_def then_do_def command_def Bot_def)

text \<open>
  With the client's own help command left in place, the third decorator would raise:
  the name is taken.
\<close>

lemma help_name_taken:
  "command ''help'' Help (Bot ''lunaria!'' (Some DefaultHelp))
     = Inl (CommandRegistrationError ''help'')"
  by (simp add: command_def Bot_def)

lemma on_message_client: "client (on_message p ev) = client p"
  by (simp add: on_message_def split: option.splits sum.splits)

lemma deliveries_client: "client (foldl on_message p evs) = client p"
  by (induction evs arbitrary: p) (simp_all add: on_message_client)

section \<open>The claims\<close>

text \<open>
  Claim C1. Every invocation of \<open>wisdom\<close> sends one text: the crystal ball, a space, and
  one element of the list of five lines declared in the handler. The element is the one
  at the index the generator draws below the length of the list. The text lies in the set
  of five replies, which has exactly five members, and distinct draws give distinct
  texts: a draw that is uniform over the five indices gives a text that is uniform over
  the five replies. How the draw is distributed is the generator's.
\<close>

theorem wisdom_sends_one_of_five:
  assumes "i < length lines"
  shows "wisdom i ctx
           = Inr (ctx\<lparr>sent := sent ctx @ [Content (crystal_ball @ '' '' @ lines ! i)]\<rparr>)
       \<and> lines ! i \<in> set lines
       \<and> length lines = 5
       \<and> distinct lines
       \<and> Content (crystal_ball @ '' '' @ lines ! i) \<in> wisdom_replies
       \<and> card wisdom_replies = 5
       \<and> inj_on (\<lambda>j. Content (crystal_ball @ '' '' @ lines ! j)) {..<length lines}"
proof -
  have member: "lines ! i \<in> set lines"
    using assms by simp
  then have reply: "Content (crystal_ball @ '' '' @ lines ! i) \<in> wisdom_replies"
    by (simp add: wisdom_replies_def)
  have "inj_on (\<lambda>j. Content (crystal_ball @ '' '' @ lines ! j)) {..<length lines}"
    using lines_distinct by (auto simp: inj_on_def nth_eq_iff_index_eq)
  with member reply show ?thesis
    using wisdom_in_range [OF assms] lines_length lines_distinct wisdom_replies_card
    by simp
qed

theorem wisdom_sends_one_of_five_witness:
  "(3::nat) < length lines
   \<and> wisdom 3 \<lparr>author = \<lparr>display_name = ''ada'', mention = ''<@7>''\<rparr>, sent = []\<rparr>
     = Inr \<lparr>author = \<lparr>display_name = ''ada'', mention = ''<@7>''\<rparr>,
            sent = [Content ([CHR 0xF0, CHR 0x9F, CHR 0x94, CHR 0xAE] @ '' Syntax isn''
              @ [CHR 0x27] @ ''t written '' @ [CHR 0xE2, CHR 0x80, CHR 0x94] @ '' it''
              @ [CHR 0x27] @ ''s conjured.'')]\<rparr>"
proof -
  have h: "(3::nat) < length lines"
    by (simp add: lines_def)
  show ?thesis
    using h wisdom_sends_one_of_five
      [OF h, of "\<lparr>author = \<lparr>display_name = ''ada'', mention = ''<@7>''\<rparr>, sent = []\<rparr>"]
    by (simp add: lines_def crystal_ball_def)
qed

text \<open>
  Claim C2. Called with an explicit target member, \<open>welcome\<close> sends one embed whose
  description is the welcome text built around the mention of that target, so the
  description contains the target's mention. The embed is the same whoever the invoking
  user is: the invoker's mention is not put in its place.
\<close>

theorem welcome_mentions_explicit_target:
  "\<exists>e d. (\<forall>a. welcome_cmd (Passed (Some m)) (ctx\<lparr>author := a\<rparr>)
              = Inr (ctx\<lparr>author := a, sent := sent ctx @ [EmbedMsg e]\<rparr>))
      \<and> description e = Some d
      \<and> d = ''Welcome to **Lunaria**, '' @ mention m @ ''!'' @ [CHR 0x0A]
            @ ''Let the code guide you through the void.''
      \<and> sublist (mention m) d"
proof -
  let ?d = "''Welcome to **Lunaria**, '' @ mention m @ ''!'' @ [CHR 0x0A]
            @ ''Let the code guide you through the void.''"
  let ?e = "\<lparr>title = Some (crescent_moon @ '' A new star rises...''),
             description = Some ?d, color = Some 0x9e91ff,
             footer = Some ''Nyra, Guardian of the Grimoire'', embed_fields = []\<rparr>"
  have "\<forall>a. welcome_cmd (Passed (Some m)) (ctx\<lparr>author := a\<rparr>)
              = Inr (ctx\<lparr>author := a, sent := sent ctx @ [EmbedMsg ?e]\<rparr>)"
    by (simp add: welcome_sends with_default_def py_or_def)
  moreover have "description ?e = Some ?d"
    by simp
  moreover have "sublist (mention m) ?d"
    by (rule sublist_appendI)
  ultimately show ?thesis
    by blast
qed

text \<open>
  Claim C3. Called with no target argument, \<open>welcome\<close> sends one embed whose description
  is the welcome text built around the mention of the context's author, so the
  description contains the invoking user's mention.
\<close>

theorem welcome_defaults_to_author:
  "\<exists>e d. welcome_cmd Omitted ctx = Inr (ctx\<lparr>sent := sent ctx @ [EmbedMsg e]\<rparr>)
      \<and> description e = Some d
      \<and> d = ''Welcome to **Lunaria**, '' @ mention (author ctx) @ ''!'' @ [CHR 0x0A]
            @ ''Let the code guide you through the void.''
      \<and> sublist (mention (author ctx)) d"
proof -
  let ?d = "''Welcome to **Lunaria**, '' @ mention (author ctx) @ ''!'' @ [CHR 0x0A]
            @ ''Let the code guide you through the void.''"
  let ?e = "\<lparr>title = Some (crescent_moon @ '' A new star rises...''),
             description = Some ?d, color = Some 0x9e91ff,
             footer = Some ''Nyra, Guardian of the Grimoire'', embed_fields = []\<rparr>"
  have "welcome_cmd Omitted ctx = Inr (ctx\<lparr>sent := sent ctx @ [EmbedMsg ?e]\<rparr>)"
    by (simp add: welcome_sends with_default_def py_or_def)
  moreover have "description ?e = Some ?d"
    by simp
  moreover have "sublist (mention (author ctx)) ?d"
    by (rule sublist_appendI)
  ultimately show ?thesis
    by blast
qed

text \<open>
  Claim C4. Every invocation of \<open>help\<close> sends one embed with exactly two fields, named
  \<open>lunaria!wisdom\<close> and \<open>lunaria!welcome [@user]\<close>, in this order.
\<close>

theorem help_lists_two_commands:
  "\<exists>e. help_cmd ctx = Inr (ctx\<lparr>sent := sent ctx @ [EmbedMsg e]\<rparr>)
      \<and> length (embed_fields e) = 2
      \<and> map field_name (embed_fields e) = [''lunaria!wisdom'', ''lunaria!welcome [@user]'']"
proof -
  obtain e where sends: "help_cmd ctx = Inr (ctx\<lparr>sent := sent ctx @ [EmbedMsg e]\<rparr>)"
    and listing: "embed_fields e =
            [\<lparr>field_name = ''lunaria!wisdom'',
              field_value = ''Receive a cryptic line of code-sorcery.'',
              field_inline = False\<rparr>,
             \<lparr>field_name = ''lunaria!welcome [@user]'',
              field_value = ''Manually invoke the welcome ritual.'',
              field_inline = False\<rparr>]"
    using help_sends [of ctx] by fastforce
  from listing have "length (embed_fields e) = 2"
    and "map field_name (embed_fields e) = [''lunaria!wisdom'', ''lunaria!welcome [@user]'']"
    by simp_all
  with sends show ?thesis
    by (intro exI [where x = e] conjI)
qed

text \<open>
  Claim C5. The module's three registrations succeed and leave a table whose names are
  \<open>wisdom\<close>, \<open>welcome\<close> and \<open>help\<close>, pairwise distinct, each standing for its own
  handler; no delivery of inbound texts, however many, changes the client and its table.
\<close>

theorem command_names_unique:
  "\<exists>b. bot_setup = Inr b
      \<and> map fst (all_commands b) = [''wisdom'', ''welcome'', ''help'']
      \<and> distinct (map fst (all_commands b))
      \<and> map_of (all_commands b) ''wisdom'' = Some Wisdom
      \<and> map_of (all_commands b) ''welcome'' = Some Welcome
      \<and> map_of (all_commands b) ''help'' = Some Help
      \<and> (\<forall>ch evs. client (foldl on_message \<lparr>client = b, channel = ch\<rparr> evs) = b)"
  by (simp add: bot_setup_eq deliveries_client)

text \<open>
  Claim C6. Whenever an inbound text selects a handler, the text starts with the prefix
  \<open>lunaria!\<close> and its command token is, character for character, the name under which
  that handler is registered. The text \<open>lunaria!wisdomX\<close> selects nothing, and its
  delivery leaves the process as it was: no handler runs.
\<close>

theorem dispatch_matches_exact_name:
  assumes "bot_setup = Inr b" and "get_command b msg = Some h"
  shows "\<exists>name. command_token ''lunaria!'' msg = Some name
           \<and> map_of (all_commands b) name = Some h
           \<and> (name, h) \<in> {(''wisdom'', Wisdom), (''welcome'', Welcome), (''help'', Help)}
           \<and> take (length ''lunaria!'') msg = ''lunaria!''
           \<and> get_command b ''lunaria!wisdomX'' = None
           \<and> on_message \<lparr>client = b, channel = ch\<rparr>
                \<lparr>content = ''lunaria!wisdomX'', sender = s, target = t, draw = i\<rparr>
              = \<lparr>client = b, channel = ch\<rparr>"
  using assms
  by (auto simp: bot_setup_eq get_command_def command_token_def is_space_def on_message_def
      split: option.splits if_splits)

theorem dispatch_matches_exact_name_witness:
  "bot_setup = Inr \<lparr>command_prefix = ''lunaria!'',
      all_commands = [(''wisdom'', Wisdom), (''welcome'', Welcome), (''help'', Help)]\<rparr>
   \<and> get_command \<lparr>command_prefix = ''lunaria!'',
        all_commands = [(''wisdom'', Wisdom), (''welcome'', Welcome), (''help'', Help)]\<rparr>
        ''lunaria!wisdom today'' = Some Wisdom
   \<and> command_token ''lunaria!'' ''lunaria!wisdom today'' = Some ''wisdom''
   \<and> get_command \<lparr>command_prefix = ''lunaria!'',
        all_commands = [(''wisdom'', Wisdom), (''welcome'', Welcome), (''help'', Help)]\<rparr>
        ''lunaria!wisdomX'' = None"
proof -
  let ?b = "\<lparr>command_prefix = ''lunaria!'',
      all_commands = [(''wisdom'', Wisdom), (''welcome'', Welcome), (''help'', Help)]\<rparr>"
  have h1: "bot_setup = Inr ?b"
    by (simp add: bot_setup_def then_do_def command_def Bot_def)
  have h2: "get_command ?b ''lunaria!wisdom today'' = Some Wisdom"
    by (simp add: get_command_def command_token_def is_space_def)
  show ?thesis
    using h1 h2 dispatch_matches_exact_name [OF h1 h2]
    by (simp add: command_token_def is_space_def)
qed

text \<open>
  Claim C7. \<open>wisdom\<close> and \<open>help\<close> never fail: each returns normally, and the context it
  returns is the one it was given with exactly one more message sent. For \<open>wisdom\<close> this
  holds for every index the generator can draw, that is, below the length of the list.
\<close>

theorem wisdom_and_help_never_fail:
  assumes "i < length lines"
  shows "(\<exists>m. wisdom i ctx = Inr (ctx\<lparr>sent := sent ctx @ [m]\<rparr>))
       \<and> (\<exists>m. help_cmd ctx = Inr (ctx\<lparr>sent := sent ctx @ [m]\<rparr>))"
  using wisdom_in_range [OF assms, of ctx] help_sends [of ctx] by blast

theorem wisdom_and_help_never_fail_witness:
  "(0::nat) < length lines
   \<and> (\<exists>m. wisdom 0 \<lparr>author = \<lparr>display_name = ''bo'', mention = ''<@9>''\<rparr>, sent = []\<rparr>
          = Inr \<lparr>author = \<lparr>display_name = ''bo'', mention = ''<@9>''\<rparr>, sent = [m]\<rparr>)
   \<and> (\<exists>m. help_cmd \<lparr>author = \<lparr>display_name = ''bo'', mention = ''<@9>''\<rparr>, sent = []\<rparr>
          = Inr \<lparr>author = \<lparr>display_name = ''bo'', mention = ''<@9>''\<rparr>, sent = [m]\<rparr>)"
proof -
  have h: "(0::nat) < length lines"
    by (simp add: lines_def)
  show ?thesis
    using h wisdom_and_help_never_fail
      [OF h, of "\<lparr>author = \<lparr>display_name = ''bo'', mention = ''<@9>''\<rparr>, sent = []\<rparr>"]
    by simp
qed

text \<open>
  Claim C8. Started as the source starts it, with no credential, the program fails at
  startup with the missing-credential error: the three registrations before it succeed,
  so the failure is not a registration error, and no running process, hence no handler
  invocation, ever exists.
\<close>

theorem startup_without_credential_fails:
  "main = Inl MissingCredential \<and> (\<exists>b. bot_setup = Inr b) \<and> (\<forall>p. main \<noteq> Inr p)"
  by (simp add: main_def bot_setup_eq then_do_def run_def)

text \<open>
  Claim C9. \<open>welcome\<close> called with the target passed as \<open>None\<close> returns what it returns
  when the target is omitted: in both cases the embed sent is the same, and its
  description is the welcome text built around the mention of the context's author.
\<close>

theorem welcome_none_same_as_absent:
  "welcome_cmd (Passed None) ctx = welcome_cmd Omitted ctx
   \<and> (\<exists>e. welcome_cmd (Passed None) ctx = Inr (ctx\<lparr>sent := sent ctx @ [EmbedMsg e]\<rparr>)
          \<and> welcome_cmd Omitted ctx = Inr (ctx\<lparr>sent := sent ctx @ [EmbedMsg e]\<rparr>)
          \<and> description e = Some (''Welcome to **Lunaria**, '' @ mention (author ctx) @ ''!''
               @ [CHR 0x0A] @ ''Let the code guide you through the void.''))"
proof -
  let ?e = "\<lparr>title = Some (crescent_moon @ '' A new star rises...''),
             description = Some (''Welcome to **Lunaria**, '' @ mention (author ctx) @ ''!''
               @ [CHR 0x0A] @ ''Let the code guide you through the void.''),
             color = Some 0x9e91ff,
             footer = Some ''Nyra, Guardian of the Grimoire'', embed_fields = []\<rparr>"
  have none: "welcome_cmd (Passed None) ctx = Inr (ctx\<lparr>sent := sent ctx @ [EmbedMsg ?e]\<rparr>)"
    by (simp add: welcome_sends with_default_def py_or_def)
  have absent: "welcome_cmd Omitted ctx = Inr (ctx\<lparr>sent := sent ctx @ [EmbedMsg ?e]\<rparr>)"
    by (simp add: welcome_sends with_default_def py_or_def)
  have "description ?e = Some (''Welcome to **Lunaria**, '' @ mention (author ctx) @ ''!''
               @ [CHR 0x0A] @ ''Let the code guide you through the void.'')"
    by simp
  with none absent show ?thesis
    by (intro conjI exI [where x = ?e]) simp_all
qed

text \<open>
  Claim C10. \<open>help\<close> is deterministic: invoked in any two contexts it sends the same
  embed, with the scroll title, the colour 0xaab6ff, no description, the two fields in
  their order and the footer of the source.
\<close>

theorem help_is_deterministic:
  "\<exists>e. help_cmd c1 = Inr (c1\<lparr>sent := sent c1 @ [EmbedMsg e]\<rparr>)
      \<and> help_cmd c2 = Inr (c2\<lparr>sent := sent c2 @ [EmbedMsg e]\<rparr>)
      \<and> e = \<lparr>title = Some (scroll @ '' Nyra'' @ [CHR 0x27] @ ''s Grimoire of Commands''),
          description = None,
          color = Some 0xaab6ff,
          footer = Some ''More spells soon to be discovered...'',
          embed_fields =
            [\<lparr>field_name = ''lunaria!wisdom'',
              field_value = ''Receive a cryptic line of code-sorcery.'',
              field_inline = False\<rparr>,
             \<lparr>field_name = ''lunaria!welcome [@user]'',
              field_value = ''Manually invoke the welcome ritual.'',
              field_inline = False\<rparr>]\<rparr>"
  using help_sends [of c1] help_sends [of c2] by blast

end
